theory Spec2Isabelle
  imports Main
begin

section \<open>Data model of the sync-state manager (sync/state_manager.py)\<close>

text \<open>
  The dataclass \<^verbatim>\<open>SyncState\<close>. Optional fields are options, the status is the
  string the source stores (\<^verbatim>\<open>'success'\<close>, \<^verbatim>\<open>'failed'\<close>, \<^verbatim>\<open>'partial'\<close>,
  \<^verbatim>\<open>'never'\<close>), the counter is a Python integer.
\<close>

record SyncState =
  bucket_id :: string
  last_sync_timestamp :: "string option"
  last_sync_event_id :: "int option"
  total_events_synced :: int
  last_sync_status :: string
  last_sync_error :: "string option"
  created_at :: string
  updated_at :: string

text \<open>
  An event is a Python dictionary. The model keeps the four keys the code reads; a key
  that is missing from the dictionary is \<open>None\<close>. Values have the types of the event
  table (integer id, ISO timestamp string); duration and data are values the code only
  forwards, of an arbitrary type \<open>'v\<close>.
\<close>

record 'v event =
  ev_id :: "int option"
  ev_timestamp :: "string option"
  ev_duration :: "'v option"
  ev_data :: "'v option"

text \<open>The exceptions raised by the modelled code, each with its message.\<close>

datatype error =
  RuntimeError string
  | KeyError string
  | ConnectionError string
  | AttributeError string
  | ImportError string
  | Exception string

text \<open>\<^verbatim>\<open>str(e)\<close>: the message; a \<^verbatim>\<open>KeyError\<close> prints the repr of its key.\<close>

fun str_of_error :: "error \<Rightarrow> string" where
  "str_of_error (RuntimeError m) = m"
| "str_of_error (KeyError k) = [CHR 0x27] @ k @ [CHR 0x27]"
| "str_of_error (ConnectionError m) = m"
| "str_of_error (AttributeError m) = m"
| "str_of_error (ImportError m) = m"
| "str_of_error (Exception m) = m"

subsection \<open>The state file and its backup\<close>

text \<open>
  The content of a file on disk: \<open>Blank\<close> is a file that \<^verbatim>\<open>open(path, 'w')\<close> has
  created or truncated and whose dump has not been completed, so that \<^verbatim>\<open>json.load\<close>
  fails on it; \<open>Json m\<close> is a complete dump of the dictionary \<open>m\<close> (\<^verbatim>\<open>asdict\<close> and
  \<^verbatim>\<open>SyncState(**state_data)\<close> are inverse to each other on well-typed fields, so the
  dump is identified with the dictionary).
\<close>

datatype file_content = Blank | Json "string \<rightharpoonup> SyncState"

record disk =
  state_file :: "file_content option"
  backup_file :: "file_content option"

definition fs_rename_to_backup :: "disk \<Rightarrow> disk" where
  "fs_rename_to_backup d = d\<lparr>backup_file := state_file d, state_file := None\<rparr>"

definition fs_open_w :: "disk \<Rightarrow> disk" where
  "fs_open_w d = d\<lparr>state_file := Some Blank\<rparr>"

definition fs_dump :: "(string \<rightharpoonup> SyncState) \<Rightarrow> disk \<Rightarrow> disk" where
  "fs_dump data d = d\<lparr>state_file := Some (Json data)\<rparr>"

text \<open>
  The environment of the state manager: the \<open>n\<close>-th reading of
  \<^verbatim>\<open>datetime.now(timezone.utc).isoformat()\<close> made by the modelled code, and for the
  \<open>n\<close>-th call of
  \<^verbatim>\<open>_save_sync_states\<close> whether the rename, the open or the dump raises (with the
  text of the exception).
\<close>

record io_env =
  now_iso :: "nat \<Rightarrow> string"
  rename_fault :: "nat \<Rightarrow> string option"
  open_fault :: "nat \<Rightarrow> string option"
  dump_fault :: "nat \<Rightarrow> string option"

text \<open>
  The manager: the in-memory dictionary \<^verbatim>\<open>_sync_states\<close>, the disk, and the numbers
  of clock readings and of save calls made so far.
\<close>

record world =
  sync_states :: "string \<rightharpoonup> SyncState"
  disk :: disk
  clock :: nat
  saves :: nat

definition read_clock :: "io_env \<Rightarrow> world \<Rightarrow> string \<times> world" where
  "read_clock io w = (now_iso io (clock w), w\<lparr>clock := Suc (clock w)\<rparr>)"

definition save_error :: "string \<Rightarrow> error" where
  "save_error m = RuntimeError (''Error saving sync states: '' @ m)"

text \<open>
  \<^verbatim>\<open>_save_sync_states\<close>: rename an existing state file to the backup path, open the
  state file for writing, dump. Any exception becomes a \<^verbatim>\<open>RuntimeError\<close>; what was
  done on disk before it stays done.
\<close>

definition save_sync_states :: "io_env \<Rightarrow> world \<Rightarrow> (error + unit) \<times> world" where
  "save_sync_states io w =
     (let n = saves w;
          w0 = w\<lparr>saves := Suc n\<rparr>;
          data = sync_states w;
          d0 = disk w
      in case (if state_file d0 \<noteq> None
               then (case rename_fault io n of
                       Some m \<Rightarrow> Inl m
                     | None \<Rightarrow> Inr (fs_rename_to_backup d0))
               else Inr d0) of
           Inl m \<Rightarrow> (Inl (save_error m), w0)
         | Inr d1 \<Rightarrow>
             (case open_fault io n of
                Some m \<Rightarrow> (Inl (save_error m), w0\<lparr>disk := d1\<rparr>)
              | None \<Rightarrow>
                  (let d2 = fs_open_w d1
                   in case dump_fault io n of
                        Some m \<Rightarrow> (Inl (save_error m), w0\<lparr>disk := d2\<rparr>)
                      | None \<Rightarrow> (Inr (), w0\<lparr>disk := fs_dump data d2\<rparr>))))"

text \<open>
  \<^verbatim>\<open>_load_sync_states\<close>: the dictionary of the state file; the empty dictionary when
  the file does not exist or cannot be parsed.
\<close>

definition load_sync_states :: "disk \<Rightarrow> (string \<rightharpoonup> SyncState)" where
  "load_sync_states d =
     (case state_file d of
        Some (Json m) \<Rightarrow> m
      | Some Blank \<Rightarrow> Map.empty
      | None \<Rightarrow> Map.empty)"

text \<open>
  The disk after the first \<open>k\<close> file-system statements of a save of \<open>data\<close> that is
  interrupted there (a crash of the process between two statements).
\<close>

definition interrupted_save :: "nat \<Rightarrow> (string \<rightharpoonup> SyncState) \<Rightarrow> disk \<Rightarrow> disk" where
  "interrupted_save k data d =
     (let d1 = (if state_file d \<noteq> None then fs_rename_to_backup d else d)
      in if k = 0 then d
         else if k = 1 then d1
         else if k = 2 then fs_open_w d1
         else fs_dump data (fs_open_w d1))"

subsection \<open>The cursor store\<close>

definition get_sync_state :: "world \<Rightarrow> string \<Rightarrow> SyncState option" where
  "get_sync_state w b = sync_states w b"

definition new_sync_state :: "string \<Rightarrow> string \<Rightarrow> SyncState" where
  "new_sync_state b now =
     \<lparr>bucket_id = b,
      last_sync_timestamp = None,
      last_sync_event_id = None,
      total_events_synced = 0,
      last_sync_status = ''never'',
      last_sync_error = None,
      created_at = now,
      updated_at = now\<rparr>"

text \<open>
  \<^verbatim>\<open>create_sync_state\<close>: the new state is stored in the dictionary before the save,
  so it stays there when the save raises.
\<close>

definition create_sync_state :: "io_env \<Rightarrow> string \<Rightarrow> world \<Rightarrow> (error + SyncState) \<times> world" where
  "create_sync_state io b w =
     (let (now, w1) = read_clock io w;
          st = new_sync_state b now;
          w2 = w1\<lparr>sync_states := (sync_states w1)(b \<mapsto> st)\<rparr>
      in case save_sync_states io w2 of
           (Inl e, w3) \<Rightarrow> (Inl e, w3)
         | (Inr u, w3) \<Rightarrow> (Inr st, w3))"

definition get_or_create_sync_state ::
  "io_env \<Rightarrow> string \<Rightarrow> world \<Rightarrow> (error + SyncState) \<times> world" where
  "get_or_create_sync_state io b w =
     (case get_sync_state w b of
        None \<Rightarrow> create_sync_state io b w
      | Some st \<Rightarrow> (Inr st, w))"

text \<open>
  \<^verbatim>\<open>update_sync_success\<close>: the fields of the bucket's state object are assigned in
  place (the object is the one the dictionary holds), then the dictionary is saved.
\<close>

definition update_sync_success ::
  "io_env \<Rightarrow> string \<Rightarrow> string \<Rightarrow> int \<Rightarrow> int \<Rightarrow> world \<Rightarrow> (error + unit) \<times> world" where
  "update_sync_success io b last_event_timestamp last_event_id events_synced w =
     (case get_or_create_sync_state io b w of
        (Inl e, w1) \<Rightarrow> (Inl e, w1)
      | (Inr st, w1) \<Rightarrow>
          (let (now, w2) = read_clock io w1;
               st' = st\<lparr>last_sync_timestamp := Some last_event_timestamp,
                        last_sync_event_id := Some last_event_id,
                        total_events_synced := total_events_synced st + events_synced,
                        last_sync_status := ''success'',
                        last_sync_error := None,
                        updated_at := now\<rparr>
           in save_sync_states io (w2\<lparr>sync_states := (sync_states w2)(b \<mapsto> st')\<rparr>)))"

definition update_sync_failure ::
  "io_env \<Rightarrow> string \<Rightarrow> string \<Rightarrow> int \<Rightarrow> world \<Rightarrow> (error + unit) \<times> world" where
  "update_sync_failure io b error_message events_synced w =
     (case get_or_create_sync_state io b w of
        (Inl e, w1) \<Rightarrow> (Inl e, w1)
      | (Inr st, w1) \<Rightarrow>
          (let st1 = (if events_synced > 0
                      then st\<lparr>total_events_synced := total_events_synced st + events_synced,
                              last_sync_status := ''partial''\<rparr>
                      else st\<lparr>last_sync_status := ''failed''\<rparr>);
               (now, w2) = read_clock io w1;
               st' = st1\<lparr>last_sync_error := Some error_message, updated_at := now\<rparr>
           in save_sync_states io (w2\<lparr>sync_states := (sync_states w2)(b \<mapsto> st')\<rparr>)))"

text \<open>\<^verbatim>\<open>event.get('id', 0)\<close>.\<close>

definition event_id_or_0 :: "'v event \<Rightarrow> int" where
  "event_id_or_0 e = (case ev_id e of None \<Rightarrow> 0 | Some i \<Rightarrow> i)"

text \<open>
  \<^verbatim>\<open>get_events_since_last_sync\<close>: the state is fetched with
  \<^verbatim>\<open>get_or_create_sync_state\<close>, so a bucket without a state gets one (and the
  exception of its save escapes); then the events are filtered in their order.
\<close>

definition get_events_since_last_sync ::
  "io_env \<Rightarrow> string \<Rightarrow> 'v event list \<Rightarrow> world \<Rightarrow> (error + 'v event list) \<times> world" where
  "get_events_since_last_sync io b all_events w =
     (case get_or_create_sync_state io b w of
        (Inl e, w1) \<Rightarrow> (Inl e, w1)
      | (Inr st, w1) \<Rightarrow>
          (case last_sync_event_id st of
             None \<Rightarrow> (Inr all_events, w1)
           | Some l \<Rightarrow> (Inr (filter (\<lambda>e. event_id_or_0 e > l) all_events), w1)))"

text \<open>\<^verbatim>\<open>reset_sync_state\<close>: delete the bucket's state and save, when there is one.\<close>

definition reset_sync_state :: "io_env \<Rightarrow> string \<Rightarrow> world \<Rightarrow> (error + unit) \<times> world" where
  "reset_sync_state io b w =
     (if sync_states w b \<noteq> None
      then save_sync_states io (w\<lparr>sync_states := (sync_states w)(b := None)\<rparr>)
      else (Inr (), w))"

text \<open>
  A call of the cursor store made by a client that catches the exception of the call, so
  that the next call finds the manager as the failed one left it.
\<close>

datatype store_op =
  Create string
  | RecordSuccess string string int int
  | RecordFailure string string int

fun apply_store_op :: "io_env \<Rightarrow> store_op \<Rightarrow> world \<Rightarrow> world" where
  "apply_store_op io (Create b) w = snd (create_sync_state io b w)"
| "apply_store_op io (RecordSuccess b ts i n) w = snd (update_sync_success io b ts i n w)"
| "apply_store_op io (RecordFailure b m n) w = snd (update_sync_failure io b m n w)"

fun run_store_ops :: "io_env \<Rightarrow> store_op list \<Rightarrow> world \<Rightarrow> world" where
  "run_store_ops io [] w = w"
| "run_store_ops io (x # xs) w = run_store_ops io xs (apply_store_op io x w)"

section \<open>The sync manager (sync/sync_manager.py)\<close>

text \<open>
  A row of the bucket table as \<^verbatim>\<open>get_buckets\<close> returns it; the code reads its
  \<^verbatim>\<open>'id'\<close> key only.
\<close>

record bucket =
  bk_id :: "string option"

text \<open>The dictionary built for each event that is sent.\<close>

record 'v sent_event =
  s_id :: int
  s_timestamp :: string
  s_duration :: 'v
  s_data :: 'v
  s_bucket_id :: string

text \<open>
  The collaborators of a pass: the OAuth manager, the configured server, the database
  module (the outcome of connecting and querying) and the HTTP side: the exception of
  \<^verbatim>\<open>_get_session\<close>, if it raises one, and the post (url, bearer token, the events
  and the timestamp of the payload to a status code and a body, or the exception of the
  transport). The session object that \<^verbatim>\<open>APIClient\<close> caches is not modelled.
\<close>

record 'v collab =
  oauth_is_authenticated :: bool
  oauth_load_tokens :: "(string \<rightharpoonup> string) option"
  server_base_url :: string
  db_get_buckets :: "error + bucket list"
  db_get_events :: "string \<Rightarrow> error + 'v event list"
  http_get_session :: "error option"
  http_post ::
    "string \<Rightarrow> string \<Rightarrow> 'v sent_event list \<Rightarrow> string \<Rightarrow> error + nat \<times> string"

record APIClient =
  base_url :: string
  access_token :: string

text \<open>
  The counters of \<^verbatim>\<open>SyncStats\<close> and the fields of \<^verbatim>\<open>SyncResult\<close>. The two
  floating-point durations (\<^verbatim>\<open>average_sync_duration\<close>, \<^verbatim>\<open>duration_seconds\<close>) are
  left out of the model.
\<close>

record SyncStats =
  total_syncs :: int
  successful_syncs :: int
  failed_syncs :: int
  stats_total_events_synced :: int
  last_sync_time :: "string option"

record SyncResult =
  success :: bool
  events_synced :: int
  buckets_synced :: int
  errors :: "string list"
  timestamp :: string

record sync_manager =
  sync_state_manager :: world
  api_client :: "APIClient option"
  sync_stats :: SyncStats

text \<open>Decimal digits of a status code, as an f-string prints it.\<close>

function string_of_nat :: "nat \<Rightarrow> string" where
  "string_of_nat n =
     (if n < 10 then [''0123456789'' ! n]
      else string_of_nat (n div 10) @ [''0123456789'' ! (n mod 10)])"
  by pat_completeness auto
termination
  by (relation "measure id") auto

declare string_of_nat.simps [simp del]

text \<open>\<^verbatim>\<open>base_url.rstrip('/')\<close>.\<close>

definition rstrip_slash :: "string \<Rightarrow> string" where
  "rstrip_slash u = rev (dropWhile (\<lambda>c. c = CHR ''/'') (rev u))"

text \<open>
  \<^verbatim>\<open>APIClient.send_events\<close>: the session is fetched, the clock is read for the
  timestamp of the payload, the events are posted and the status code is classified. An
  exception of \<^verbatim>\<open>_get_session\<close> or of the transport becomes a failure message;
  nothing is raised.
\<close>

definition send_events ::
  "io_env \<Rightarrow> 'v collab \<Rightarrow> APIClient \<Rightarrow> 'v sent_event list \<Rightarrow> world
   \<Rightarrow> (bool \<times> string) \<times> world" where
  "send_events io co c evs w =
     (case http_get_session co of
        Some e \<Rightarrow> ((False, ''Network error: '' @ str_of_error e), w)
      | None \<Rightarrow>
          (let (now, w1) = read_clock io w
           in case http_post co (base_url c @ ''/api/v1/events'') (access_token c) evs now of
                Inl e \<Rightarrow> ((False, ''Network error: '' @ str_of_error e), w1)
              | Inr (status_code, body) \<Rightarrow>
                  if status_code = 200 then ((True, ''Events sent successfully''), w1)
                  else if status_code = 401
                  then ((False, ''Authentication failed - token expired''), w1)
                  else if status_code = 429
                  then ((False, ''Rate limited - too many requests''), w1)
                  else ((False, ''API error: '' @ string_of_nat status_code @ '' - '' @ body),
                        w1)))"

text \<open>
  \<^verbatim>\<open>_ensure_authenticated\<close>: true only when the client is created in this call; with a
  client already present the function falls through to its final \<^verbatim>\<open>return False\<close>.
\<close>

definition ensure_authenticated :: "'v collab \<Rightarrow> sync_manager \<Rightarrow> bool \<times> sync_manager" where
  "ensure_authenticated co sm =
     (if \<not> oauth_is_authenticated co then (False, sm)
      else (case api_client sm of
              None \<Rightarrow>
                (case oauth_load_tokens co of
                   None \<Rightarrow> (False, sm)
                 | Some tokens \<Rightarrow>
                     (case tokens ''access_token'' of
                        None \<Rightarrow> (False, sm)
                      | Some tok \<Rightarrow>
                          (True, sm\<lparr>api_client :=
                                   Some \<lparr>base_url = rstrip_slash (server_base_url co),
                                         access_token = tok\<rparr>\<rparr>)))
            | Some c \<Rightarrow> (False, sm)))"

text \<open>One dictionary of \<^verbatim>\<open>events_to_send\<close>; a missing key raises \<^verbatim>\<open>KeyError\<close>.\<close>

definition prepare_event :: "string \<Rightarrow> 'v event \<Rightarrow> error + 'v sent_event" where
  "prepare_event b e =
     (case ev_id e of
        None \<Rightarrow> Inl (KeyError ''id'')
      | Some i \<Rightarrow>
          (case ev_timestamp e of
             None \<Rightarrow> Inl (KeyError ''timestamp'')
           | Some t \<Rightarrow>
               (case ev_duration e of
                  None \<Rightarrow> Inl (KeyError ''duration'')
                | Some du \<Rightarrow>
                    (case ev_data e of
                       None \<Rightarrow> Inl (KeyError ''data'')
                     | Some da \<Rightarrow>
                         Inr \<lparr>s_id = i, s_timestamp = t, s_duration = du, s_data = da,
                              s_bucket_id = b\<rparr>))))"

fun prepare_events :: "string \<Rightarrow> 'v event list \<Rightarrow> error + 'v sent_event list" where
  "prepare_events b [] = Inr []"
| "prepare_events b (e # es) =
     (case prepare_event b e of
        Inl err \<Rightarrow> Inl err
      | Inr s \<Rightarrow>
          (case prepare_events b es of
             Inl err \<Rightarrow> Inl err
           | Inr ss \<Rightarrow> Inr (s # ss)))"

text \<open>
  What Python raises when \<^verbatim>\<open>self.api_client\<close> is still \<^verbatim>\<open>None\<close> at
  \<^verbatim>\<open>self.api_client.send_events\<close>.
\<close>

definition no_api_client :: error where
  "no_api_client =
     AttributeError ([CHR 0x27] @ ''NoneType'' @ [CHR 0x27] @ '' object has no attribute ''
       @ [CHR 0x27] @ ''send_events'' @ [CHR 0x27])"

text \<open>
  \<^verbatim>\<open>_sync_bucket\<close>: the number of events synced, or the exception that leaves the
  function.
\<close>

definition sync_bucket ::
  "io_env \<Rightarrow> 'v collab \<Rightarrow> string \<Rightarrow> sync_manager \<Rightarrow> (error + int) \<times> sync_manager" where
  "sync_bucket io co b sm =
     (case db_get_events co b of
        Inl e \<Rightarrow> (Inl e, sm)
      | Inr all_events \<Rightarrow>
          (case get_events_since_last_sync io b all_events (sync_state_manager sm) of
             (Inl e, w1) \<Rightarrow> (Inl e, sm\<lparr>sync_state_manager := w1\<rparr>)
           | (Inr unsynced_events, w1) \<Rightarrow>
               if unsynced_events = [] then (Inr 0, sm\<lparr>sync_state_manager := w1\<rparr>)
               else
                 (case prepare_events b unsynced_events of
                    Inl e \<Rightarrow> (Inl e, sm\<lparr>sync_state_manager := w1\<rparr>)
                  | Inr events_to_send \<Rightarrow>
                      (case api_client sm of
                         None \<Rightarrow> (Inl no_api_client, sm\<lparr>sync_state_manager := w1\<rparr>)
                       | Some c \<Rightarrow>
                           (case send_events io co c events_to_send w1 of
                              ((True, message), ws) \<Rightarrow>
                                (let last_event = last unsynced_events
                                 in case ev_timestamp last_event of
                                      None \<Rightarrow>
                                        (Inl (KeyError ''timestamp''),
                                         sm\<lparr>sync_state_manager := ws\<rparr>)
                                    | Some ts \<Rightarrow>
                                        (case ev_id last_event of
                                           None \<Rightarrow>
                                             (Inl (KeyError ''id''),
                                              sm\<lparr>sync_state_manager := ws\<rparr>)
                                         | Some i \<Rightarrow>
                                             (case update_sync_success io b ts i
                                                     (int (length unsynced_events)) ws of
                                                (Inl e, w2) \<Rightarrow>
                                                  (Inl e, sm\<lparr>sync_state_manager := w2\<rparr>)
                                              | (Inr u, w2) \<Rightarrow>
                                                  (Inr (int (length unsynced_events)),
                                                   sm\<lparr>sync_state_manager := w2\<rparr>))))
                            | ((False, message), ws) \<Rightarrow>
                                (case update_sync_failure io b message 0 ws of
                                   (Inl e, w2) \<Rightarrow> (Inl e, sm\<lparr>sync_state_manager := w2\<rparr>)
                                 | (Inr u, w2) \<Rightarrow>
                                     (Inl (Exception (''Failed to send events: '' @ message)),
                                      sm\<lparr>sync_state_manager := w2\<rparr>)))))))"

text \<open>\<^verbatim>\<open>_update_sync_stats\<close>, without the average duration.\<close>

definition update_sync_stats :: "io_env \<Rightarrow> bool \<Rightarrow> int \<Rightarrow> sync_manager \<Rightarrow> sync_manager" where
  "update_sync_stats io ok n sm =
     (let st = sync_stats sm;
          st1 = st\<lparr>total_syncs := total_syncs st + 1\<rparr>;
          st2 = (if ok
                 then st1\<lparr>successful_syncs := successful_syncs st1 + 1,
                          stats_total_events_synced := stats_total_events_synced st1 + n\<rparr>
                 else st1\<lparr>failed_syncs := failed_syncs st1 + 1\<rparr>);
          (now, w) = read_clock io (sync_state_manager sm)
      in sm\<lparr>sync_state_manager := w, sync_stats := st2\<lparr>last_sync_time := Some now\<rparr>\<rparr>)"

text \<open>
  The \<^verbatim>\<open>for bucket in buckets\<close> loop of \<^verbatim>\<open>sync_all_buckets\<close>, with the three
  accumulators. \<^verbatim>\<open>bucket['id']\<close> is read outside the inner \<^verbatim>\<open>try\<close>: its
  \<^verbatim>\<open>KeyError\<close> ends the loop. Every exception of \<^verbatim>\<open>_sync_bucket\<close> is caught,
  turned into a message that names the bucket, and the loop goes on.
\<close>

fun sync_buckets ::
  "io_env \<Rightarrow> 'v collab \<Rightarrow> bucket list \<Rightarrow> string list \<Rightarrow> int \<Rightarrow> int \<Rightarrow> sync_manager
   \<Rightarrow> (error option \<times> string list \<times> int \<times> int) \<times> sync_manager" where
  "sync_buckets io co [] errs tot n sm = ((None, errs, tot, n), sm)"
| "sync_buckets io co (bucket # rest) errs tot n sm =
     (case bk_id bucket of
        None \<Rightarrow> ((Some (KeyError ''id''), errs, tot, n), sm)
      | Some b \<Rightarrow>
          (case sync_bucket io co b sm of
             (Inr k, sm1) \<Rightarrow> sync_buckets io co rest errs (tot + k) (n + 1) sm1
           | (Inl e, sm1) \<Rightarrow>
               sync_buckets io co rest
                 (errs @ [''Failed to sync bucket '' @ b @ '': '' @ str_of_error e]) tot n sm1))"

text \<open>
  \<^verbatim>\<open>sync_all_buckets\<close>. The result is a \<^verbatim>\<open>SyncResult\<close> on every path: the outer
  \<^verbatim>\<open>except Exception\<close> turns what escapes the loop or the bucket query into a message.
\<close>

definition failed_pass :: "io_env \<Rightarrow> string list \<Rightarrow> sync_manager \<Rightarrow> SyncResult \<times> sync_manager" where
  "failed_pass io errs sm =
     (let (now, w) = read_clock io (sync_state_manager sm)
      in (\<lparr>success = False, events_synced = 0, buckets_synced = 0, errors = errs,
           timestamp = now\<rparr>,
          sm\<lparr>sync_state_manager := w\<rparr>))"

definition sync_all_buckets ::
  "io_env \<Rightarrow> 'v collab \<Rightarrow> sync_manager \<Rightarrow> SyncResult \<times> sync_manager" where
  "sync_all_buckets io co sm =
     (case ensure_authenticated co sm of
        (False, sm1) \<Rightarrow> failed_pass io [''Authentication required''] sm1
      | (True, sm1) \<Rightarrow>
          (case db_get_buckets co of
             Inl e \<Rightarrow> failed_pass io [''Synchronization failed: '' @ str_of_error e] sm1
           | Inr buckets \<Rightarrow>
               (case sync_buckets io co buckets [] 0 0 sm1 of
                  ((Some e, errs, tot, n), sm2) \<Rightarrow>
                    failed_pass io (errs @ [''Synchronization failed: '' @ str_of_error e]) sm2
                | ((None, errs, tot, n), sm2) \<Rightarrow>
                    (let ok = (errs = []);
                         sm3 = update_sync_stats io ok tot sm2;
                         (now, w) = read_clock io (sync_state_manager sm3)
                     in (\<lparr>success = ok, events_synced = tot, buckets_synced = n,
                          errors = errs, timestamp = now\<rparr>,
                         sm3\<lparr>sync_state_manager := w\<rparr>)))))"

section \<open>Observations and example data\<close>

text \<open>No statement of the \<open>n\<close>-th save raises.\<close>

definition no_fault :: "io_env \<Rightarrow> nat \<Rightarrow> bool" where
  "no_fault io n \<longleftrightarrow>
     rename_fault io n = None \<and> open_fault io n = None \<and> dump_fault io n = None"

text \<open>The bucket's \<^verbatim>\<open>last_sync_event_id\<close>; absent when the bucket has no state.\<close>

definition cursor_event_id :: "world \<Rightarrow> string \<Rightarrow> int option" where
  "cursor_event_id w b =
     (case sync_states w b of None \<Rightarrow> None | Some st \<Rightarrow> last_sync_event_id st)"

text \<open>The bucket's \<^verbatim>\<open>total_events_synced\<close>; zero when the bucket has no state.\<close>

definition cursor_total :: "world \<Rightarrow> string \<Rightarrow> int" where
  "cursor_total w b =
     (case sync_states w b of None \<Rightarrow> 0 | Some st \<Rightarrow> total_events_synced st)"

text \<open>The bucket's \<^verbatim>\<open>last_sync_status\<close>.\<close>

definition cursor_status :: "world \<Rightarrow> string \<Rightarrow> string option" where
  "cursor_status w b = map_option last_sync_status (sync_states w b)"

text \<open>The order on \<^verbatim>\<open>last_sync_event_id\<close>: unset is below every id.\<close>

fun cursor_le :: "int option \<Rightarrow> int option \<Rightarrow> bool" where
  "cursor_le None y = True"
| "cursor_le (Some a) None = False"
| "cursor_le (Some a) (Some c) = (a \<le> c)"

text \<open>
  A sequence of calls is admissible for bucket \<open>b\<close> at \<open>cur\<close> when the bucket is not
  created anew and every \<^verbatim>\<open>update_sync_success\<close> on it passes a count \<open>\<ge> 0\<close> and an
  id not below the one recorded before (\<open>cur\<close> at the start).
\<close>

fun admissible :: "string \<Rightarrow> int option \<Rightarrow> store_op list \<Rightarrow> bool" where
  "admissible b cur [] = True"
| "admissible b cur (Create b' # ops) = (b' \<noteq> b \<and> admissible b cur ops)"
| "admissible b cur (RecordSuccess b' ts i n # ops) =
     (if b' = b then 0 \<le> n \<and> cursor_le cur (Some i) \<and> admissible b (Some i) ops
      else admissible b cur ops)"
| "admissible b cur (RecordFailure b' m n # ops) = admissible b cur ops"

text \<open>What the three operations keep true of every stored state.\<close>

definition status_inv :: "SyncState \<Rightarrow> bool" where
  "status_inv c \<longleftrightarrow>
     last_sync_status c \<in> {''never'', ''success'', ''failed'', ''partial''}
     \<and> (last_sync_status c = ''never'' \<longrightarrow> last_sync_event_id c = None)
     \<and> (last_sync_status c = ''success'' \<longrightarrow> last_sync_event_id c \<noteq> None)"

text \<open>A clock and a disk that never fails, a manager started without a state file.\<close>

definition io_ok :: io_env where
  "io_ok =
     \<lparr>now_iso = (\<lambda>n. ''2025-08-22T12:00:00+00:00''),
      rename_fault = (\<lambda>n. None),
      open_fault = (\<lambda>n. None),
      dump_fault = (\<lambda>n. None)\<rparr>"

definition fresh_world :: world where
  "fresh_world =
     \<lparr>sync_states = Map.empty,
      disk = \<lparr>state_file = None, backup_file = None\<rparr>,
      clock = 0,
      saves = 0\<rparr>"

definition example_event :: "int \<Rightarrow> string event" where
  "example_event i =
     \<lparr>ev_id = Some i,
      ev_timestamp = Some ''2025-08-22T10:00:00Z'',
      ev_duration = Some ''0.0'',
      ev_data = Some ''{}''\<rparr>"

definition example_cursor :: "string \<Rightarrow> int \<Rightarrow> SyncState" where
  "example_cursor b i =
     \<lparr>bucket_id = b,
      last_sync_timestamp = Some ''2025-08-22T10:00:00Z'',
      last_sync_event_id = Some i,
      total_events_synced = i,
      last_sync_status = ''success'',
      last_sync_error = None,
      created_at = ''2025-08-22T09:00:00+00:00'',
      updated_at = ''2025-08-22T10:00:05+00:00''\<rparr>"

definition synced_world :: "string \<Rightarrow> int \<Rightarrow> world" where
  "synced_world b i =
     \<lparr>sync_states = [b \<mapsto> example_cursor b i],
      disk = \<lparr>state_file = Some (Json [b \<mapsto> example_cursor b i]), backup_file = None\<rparr>,
      clock = 2,
      saves = 2\<rparr>"

text \<open>
  Collaborators for two buckets with two events each; the backend rejects what comes
  from bucket \<^verbatim>\<open>afk\<close> with status 400 and accepts the rest.
\<close>

definition example_collab :: "string collab" where
  "example_collab =
     \<lparr>oauth_is_authenticated = True,
      oauth_load_tokens = Some [''access_token'' \<mapsto> ''secret-token''],
      server_base_url = ''https://api.example.com/'',
      db_get_buckets = Inr [\<lparr>bk_id = Some ''afk''\<rparr>, \<lparr>bk_id = Some ''window''\<rparr>],
      db_get_events = (\<lambda>b. Inr (map example_event [1, 2])),
      http_get_session = None,
      http_post = (\<lambda>url token evs now.
        if list_ex (\<lambda>e. s_bucket_id e = ''afk'') evs then Inr (400, ''Rejected'')
        else Inr (200, ''OK''))\<rparr>"

text \<open>A sync manager as its constructor leaves it, and after the client is created.\<close>

definition fresh_manager :: sync_manager where
  "fresh_manager =
     \<lparr>sync_state_manager = fresh_world,
      api_client = None,
      sync_stats = \<lparr>total_syncs = 0, successful_syncs = 0, failed_syncs = 0,
                    stats_total_events_synced = 0, last_sync_time = None\<rparr>\<rparr>"

definition authed_manager :: sync_manager where
  "authed_manager = snd (ensure_authenticated example_collab fresh_manager)"

section \<open>Properties of the cursor store\<close>

lemma save_keeps_memory:
  "sync_states (snd (save_sync_states io w)) = sync_states w"
  "clock (snd (save_sync_states io w)) = clock w"
  "saves (snd (save_sync_states io w)) = Suc (saves w)"
  by (simp_all add: save_sync_states_def Let_def split: option.splits sum.splits)

lemma save_no_fault:
  "no_fault io (saves w) \<Longrightarrow> fst (save_sync_states io w) = Inr ()"
  by (simp add: save_sync_states_def no_fault_def Let_def split: option.splits sum.splits)

lemma save_error_kind:
  "fst (save_sync_states io w) = Inl e \<Longrightarrow> \<exists>m. e = RuntimeError m"
  by (auto simp add: save_sync_states_def save_error_def Let_def
      split: option.splits sum.splits if_splits)

lemma get_or_create_existing:
  "sync_states w b = Some st \<Longrightarrow> get_or_create_sync_state io b w = (Inr st, w)"
  by (simp add: get_or_create_sync_state_def get_sync_state_def)

lemma create_unfold:
  "create_sync_state io b w =
     (case save_sync_states io
             (w\<lparr>clock := Suc (clock w),
                sync_states := (sync_states w)(b \<mapsto> new_sync_state b (now_iso io (clock w)))\<rparr>) of
        (Inl e, w3) \<Rightarrow> (Inl e, w3)
      | (Inr u, w3) \<Rightarrow> (Inr (new_sync_state b (now_iso io (clock w))), w3))"
  by (simp add: create_sync_state_def read_clock_def Let_def)

lemma create_memory:
  "sync_states (snd (create_sync_state io b w)) =
     (sync_states w)(b \<mapsto> new_sync_state b (now_iso io (clock w)))"
proof -
  define w2 where "w2 = w\<lparr>clock := Suc (clock w),
     sync_states := (sync_states w)(b \<mapsto> new_sync_state b (now_iso io (clock w)))\<rparr>"
  have "snd (create_sync_state io b w) = snd (save_sync_states io w2)"
    unfolding create_unfold w2_def by (simp split: prod.split sum.split)
  then show ?thesis
    by (simp add: save_keeps_memory w2_def)
qed

lemma create_result:
  "fst (create_sync_state io b w) = Inr st \<Longrightarrow> st = new_sync_state b (now_iso io (clock w))"
  unfolding create_unfold by (simp split: prod.splits sum.splits)

lemma create_no_fault:
  assumes "no_fault io (saves w)"
  shows "fst (create_sync_state io b w) = Inr (new_sync_state b (now_iso io (clock w)))"
proof -
  define w2 where "w2 = w\<lparr>clock := Suc (clock w),
     sync_states := (sync_states w)(b \<mapsto> new_sync_state b (now_iso io (clock w)))\<rparr>"
  have "saves w2 = saves w" by (simp add: w2_def)
  with assms have "fst (save_sync_states io w2) = Inr ()"
    by (simp add: save_no_fault)
  then show ?thesis
    unfolding create_unfold w2_def [symmetric]
    by (cases "save_sync_states io w2") (auto split: sum.splits)
qed

lemma get_or_create_result:
  "fst (get_or_create_sync_state io b w) = Inr st \<Longrightarrow>
     st = (case sync_states w b of None \<Rightarrow> new_sync_state b (now_iso io (clock w)) | Some c \<Rightarrow> c)"
  by (auto simp add: get_or_create_sync_state_def get_sync_state_def
      dest: create_result split: option.splits)

lemma get_or_create_memory:
  "sync_states (snd (get_or_create_sync_state io b w)) =
     (case sync_states w b of
        None \<Rightarrow> (sync_states w)(b \<mapsto> new_sync_state b (now_iso io (clock w)))
      | Some c \<Rightarrow> sync_states w)"
  by (simp add: get_or_create_sync_state_def get_sync_state_def create_memory
      split: option.splits)

lemma selector_existing:
  "sync_states w b = Some st \<Longrightarrow>
     get_events_since_last_sync io b evs w =
       (Inr (case last_sync_event_id st of
               None \<Rightarrow> evs
             | Some l \<Rightarrow> filter (\<lambda>e. event_id_or_0 e > l) evs), w)"
  by (simp add: get_events_since_last_sync_def get_or_create_existing split: option.splits)

lemma selector_absent:
  assumes "sync_states w b = None" "no_fault io (saves w)"
  shows "fst (get_events_since_last_sync io b evs w) = Inr evs"
proof -
  have "fst (create_sync_state io b w) = Inr (new_sync_state b (now_iso io (clock w)))"
    using assms(2) by (rule create_no_fault)
  then show ?thesis
    using assms(1)
    by (cases "create_sync_state io b w")
      (simp add: get_events_since_last_sync_def get_or_create_sync_state_def
        get_sync_state_def new_sync_state_def)
qed

lemma filter_ids_present:
  "\<forall>e\<in>set evs. ev_id e \<noteq> None \<Longrightarrow>
     filter (\<lambda>e. event_id_or_0 e > l) evs = filter (\<lambda>e. \<exists>i. ev_id e = Some i \<and> l < i) evs"
  by (rule filter_cong) (auto simp add: event_id_or_0_def)

text \<open>
  C1. For every bucket and every list of events (each with an id), the selector returns
  all input events unchanged when the bucket's \<^verbatim>\<open>last_sync_event_id\<close> is absent, and
  otherwise exactly the input events whose id is strictly greater than it, in the input
  order. The selector returns when the bucket already has a state, or when the save of
  the state it creates does not fail.
\<close>

theorem selector_filters:
  assumes "\<forall>e\<in>set all_events. ev_id e \<noteq> None"
    and "sync_states w b \<noteq> None \<or> no_fault io (saves w)"
  shows "fst (get_events_since_last_sync io b all_events w) =
           Inr (case cursor_event_id w b of
                  None \<Rightarrow> all_events
                | Some l \<Rightarrow> filter (\<lambda>e. \<exists>i. ev_id e = Some i \<and> l < i) all_events)"
proof (cases "sync_states w b")
  case None
  with assms(2) have "no_fault io (saves w)" by simp
  with None show ?thesis
    by (simp add: selector_absent cursor_event_id_def)
next
  case (Some st)
  then show ?thesis
    using filter_ids_present [OF assms(1)]
    by (simp add: selector_existing cursor_event_id_def split: option.splits)
qed

theorem selector_filters_witness:
  "list_all (\<lambda>e. ev_id e \<noteq> None) (map example_event [1, 2, 3, 4, 5])
   \<and> sync_states (synced_world ''test-bucket'' 3) ''test-bucket''
       = Some (example_cursor ''test-bucket'' 3)
   \<and> fst (get_events_since_last_sync io_ok ''test-bucket'' (map example_event [1, 2, 3, 4, 5])
              (synced_world ''test-bucket'' 3))
       = Inr [example_event 4, example_event 5]"
  using selector_filters [of "map example_event [1, 2, 3, 4, 5]" "synced_world ''test-bucket'' 3"
      "''test-bucket''" io_ok]
  by (simp add: synced_world_def example_event_def example_cursor_def cursor_event_id_def)

text \<open>
  C10. An event dictionary without an \<^verbatim>\<open>'id'\<close> key is compared as id 0: for a bucket
  whose state has \<^verbatim>\<open>last_sync_event_id = l\<close> it is selected exactly when \<open>l < 0\<close>, so
  never when \<open>0 \<le> l\<close>; when the state's \<^verbatim>\<open>last_sync_event_id\<close> is absent all events
  are returned, this one included.
\<close>

theorem missing_id_treated_as_zero:
  assumes "ev_id e = None" and "sync_states w b = Some st"
  shows "(\<forall>l. last_sync_event_id st = Some l \<longrightarrow>
            (\<exists>r. get_events_since_last_sync io b evs w = (Inr r, w) \<and>
                 (e \<in> set r \<longleftrightarrow> e \<in> set evs \<and> l < 0) \<and>
                 (0 \<le> l \<longrightarrow> e \<notin> set r)))
       \<and> (last_sync_event_id st = None \<longrightarrow>
            get_events_since_last_sync io b evs w = (Inr evs, w))"
  using assms by (auto simp add: selector_existing event_id_or_0_def)

theorem missing_id_treated_as_zero_witness:
  "ev_id ((example_event 7)\<lparr>ev_id := None\<rparr>) = None
   \<and> sync_states (synced_world ''afk'' 0) ''afk'' = Some (example_cursor ''afk'' 0)
   \<and> get_events_since_last_sync io_ok ''afk''
         [example_event 1, (example_event 7)\<lparr>ev_id := None\<rparr>] (synced_world ''afk'' 0)
       = (Inr [example_event 1], synced_world ''afk'' 0)"
  using missing_id_treated_as_zero [of "(example_event 7)\<lparr>ev_id := None\<rparr>"
      "synced_world ''afk'' 0" "''afk''" "example_cursor ''afk'' 0" io_ok
      "[example_event 1, (example_event 7)\<lparr>ev_id := None\<rparr>]"]
  by (simp add: synced_world_def example_event_def example_cursor_def
      get_events_since_last_sync_def get_or_create_sync_state_def get_sync_state_def
      event_id_or_0_def)

lemma get_or_create_cases:
  obtains (existing) st where "sync_states w b = Some st"
      "get_or_create_sync_state io b w = (Inr st, w)"
  | (created) w1 where "sync_states w b = None"
      "get_or_create_sync_state io b w = (Inr (new_sync_state b (now_iso io (clock w))), w1)"
      "sync_states w1 = (sync_states w)(b \<mapsto> new_sync_state b (now_iso io (clock w)))"
      "clock w1 = Suc (clock w)" "saves w1 = Suc (saves w)"
  | (failed) e w1 where "sync_states w b = None"
      "get_or_create_sync_state io b w = (Inl e, w1)"
      "sync_states w1 = (sync_states w)(b \<mapsto> new_sync_state b (now_iso io (clock w)))"
      "clock w1 = Suc (clock w)" "saves w1 = Suc (saves w)"
proof (cases "sync_states w b")
  case (Some st)
  then show ?thesis using existing get_or_create_existing by blast
next
  case None
  define w2 where "w2 = w\<lparr>clock := Suc (clock w),
     sync_states := (sync_states w)(b \<mapsto> new_sync_state b (now_iso io (clock w)))\<rparr>"
  obtain r w3 where s: "save_sync_states io w2 = (r, w3)" by (cases "save_sync_states io w2")
  have m: "sync_states w3 = sync_states w2" "clock w3 = clock w2" "saves w3 = Suc (saves w2)"
    using save_keeps_memory [of io w2] s by simp_all
  have g: "get_or_create_sync_state io b w = create_sync_state io b w"
    using None by (simp add: get_or_create_sync_state_def get_sync_state_def)
  show ?thesis
  proof (cases r)
    case (Inl e)
    have "get_or_create_sync_state io b w = (Inl e, w3)"
      unfolding g create_unfold w2_def [symmetric] using s Inl by simp
    then show ?thesis using failed [of e w3] None m by (simp add: w2_def)
  next
    case (Inr u)
    have "get_or_create_sync_state io b w =
        (Inr (new_sync_state b (now_iso io (clock w))), w3)"
      unfolding g create_unfold w2_def [symmetric] using s Inr by simp
    then show ?thesis using created [of w3] None m by (simp add: w2_def)
  qed
qed

lemma update_sync_success_memory:
  "sync_states (snd (update_sync_success io b ts i n w)) b' =
     (if b' \<noteq> b then sync_states w b'
      else case fst (get_or_create_sync_state io b w) of
             Inl e \<Rightarrow> Some (new_sync_state b (now_iso io (clock w)))
           | Inr st \<Rightarrow>
               Some (st\<lparr>last_sync_timestamp := Some ts,
                        last_sync_event_id := Some i,
                        total_events_synced := total_events_synced st + n,
                        last_sync_status := ''success'',
                        last_sync_error := None,
                        updated_at := now_iso io (clock (snd (get_or_create_sync_state io b w)))\<rparr>))"
proof (cases rule: get_or_create_cases [of w b io])
  case (existing st)
  then show ?thesis
    by (simp add: update_sync_success_def read_clock_def save_keeps_memory)
next
  case (created w1)
  then show ?thesis
    by (simp add: update_sync_success_def read_clock_def save_keeps_memory)
next
  case (failed e w1)
  then show ?thesis
    by (simp add: update_sync_success_def)
qed

lemma update_sync_failure_memory:
  "sync_states (snd (update_sync_failure io b m n w)) b' =
     (if b' \<noteq> b then sync_states w b'
      else case fst (get_or_create_sync_state io b w) of
             Inl e \<Rightarrow> Some (new_sync_state b (now_iso io (clock w)))
           | Inr st \<Rightarrow>
               Some ((if n > 0
                      then st\<lparr>total_events_synced := total_events_synced st + n,
                              last_sync_status := ''partial''\<rparr>
                      else st\<lparr>last_sync_status := ''failed''\<rparr>)
                     \<lparr>last_sync_error := Some m,
                      updated_at := now_iso io (clock (snd (get_or_create_sync_state io b w)))\<rparr>))"
proof (cases rule: get_or_create_cases [of w b io])
  case (existing st)
  then show ?thesis
    by (simp add: update_sync_failure_def read_clock_def save_keeps_memory)
next
  case (created w1)
  then show ?thesis
    by (simp add: update_sync_failure_def read_clock_def save_keeps_memory)
next
  case (failed e w1)
  then show ?thesis
    by (simp add: update_sync_failure_def)
qed

lemma selector_leaves_cursor_in_memory:
  assumes "fst (get_events_since_last_sync io b evs w) = Inr sent"
  shows "\<exists>st. sync_states (snd (get_events_since_last_sync io b evs w)) b = Some st
            \<and> last_sync_event_id st = cursor_event_id w b
            \<and> sent = (case cursor_event_id w b of
                         None \<Rightarrow> evs
                       | Some l \<Rightarrow> filter (\<lambda>e. event_id_or_0 e > l) evs)"
proof (cases rule: get_or_create_cases [of w b io])
  case (existing st)
  then show ?thesis using assms
    by (auto simp add: get_events_since_last_sync_def cursor_event_id_def split: option.splits)
next
  case (created w1)
  then show ?thesis using assms
    by (auto simp add: get_events_since_last_sync_def cursor_event_id_def new_sync_state_def)
next
  case (failed e w1)
  then show ?thesis using assms
    by (simp add: get_events_since_last_sync_def)
qed

lemma sorted_last_max:
  assumes "sorted (map f xs)" "x \<in> set xs"
  shows "f x \<le> f (last xs)"
proof -
  from assms(2) obtain i where i: "i < length xs" "xs ! i = x"
    by (auto simp add: in_set_conv_nth)
  then have ne: "xs \<noteq> []" by auto
  have "map f xs ! i \<le> map f xs ! (length xs - 1)"
    using assms(1) i(1) by (intro sorted_nth_mono) auto
  then show ?thesis using i ne by (simp add: last_conv_nth)
qed

lemma last_filter_last:
  assumes "xs \<noteq> []" "P (last xs)"
  shows "last (filter P xs) = last xs"
  using assms by (cases xs rule: rev_cases) auto

lemma last_of_selected:
  assumes "sorted (map event_id_or_0 evs)"
    and "filter (\<lambda>e. event_id_or_0 e > l) evs \<noteq> []"
  shows "last (filter (\<lambda>e. event_id_or_0 e > l) evs) = last evs"
proof -
  from assms(2) obtain x where x: "x \<in> set evs" "event_id_or_0 x > l"
    by (metis (mono_tags, lifting) filter_False)
  have "event_id_or_0 x \<le> event_id_or_0 (last evs)"
    using assms(1) x(1) by (rule sorted_last_max)
  with x(2) have "event_id_or_0 (last evs) > l" by simp
  moreover have "evs \<noteq> []" using x(1) by auto
  ultimately show ?thesis by (simp add: last_filter_last)
qed

lemmas model_defs =
  get_events_since_last_sync_def get_or_create_sync_state_def get_sync_state_def
  create_sync_state_def update_sync_success_def update_sync_failure_def
  save_sync_states_def read_clock_def new_sync_state_def event_id_or_0_def
  fs_dump_def fs_open_w_def fs_rename_to_backup_def
  io_ok_def fresh_world_def synced_world_def example_event_def example_cursor_def
  cursor_event_id_def cursor_total_def cursor_status_def no_fault_def Let_def

lemma record_last_then_nothing_unsynced:
  assumes asc: "sorted (map event_id_or_0 evs)"
    and sel: "get_events_since_last_sync io b evs w = (Inr sent, w1)"
    and ne: "sent \<noteq> []"
    and keep: "sync_states ws = sync_states w1"
    and upd: "update_sync_success io b ts (event_id_or_0 (last sent)) (int (length sent)) ws
               = (r, w2)"
  shows "(no_fault io (saves ws) \<longrightarrow> r = Inr ())
       \<and> (r = Inr () \<or> (\<exists>m. r = Inl (RuntimeError m)))
       \<and> cursor_event_id w2 b = Some (event_id_or_0 (last sent))
       \<and> get_events_since_last_sync io b evs w2 = (Inr [], w2)"
proof -
  let ?k = "event_id_or_0 (last sent)"
  from sel obtain st where st1: "sync_states w1 b = Some st"
    and sent: "sent = (case cursor_event_id w b of
                         None \<Rightarrow> evs
                       | Some l \<Rightarrow> filter (\<lambda>e. event_id_or_0 e > l) evs)"
    using selector_leaves_cursor_in_memory [of io b evs w sent] by auto
  from st1 keep have st: "sync_states ws b = Some st" by simp
  have goc: "get_or_create_sync_state io b ws = (Inr st, ws)"
    using st by (rule get_or_create_existing)
  have last_eq: "last sent = last evs"
    using sent ne asc by (auto split: option.splits simp add: last_of_selected)
  have c2: "no_fault io (saves ws) \<longrightarrow> r = Inr ()"
  proof
    assume nf: "no_fault io (saves ws)"
    have "fst (update_sync_success io b ts ?k (int (length sent)) ws) = Inr ()"
      using goc nf by (simp add: update_sync_success_def read_clock_def save_no_fault)
    with upd show "r = Inr ()" by simp
  qed
  have c2': "r = Inr () \<or> (\<exists>m. r = Inl (RuntimeError m))"
  proof (cases r)
    case (Inl x)
    then have "fst (update_sync_success io b ts ?k (int (length sent)) ws) = Inl x"
      using upd by simp
    then have "\<exists>m. x = RuntimeError m"
      using goc save_error_kind by (simp add: update_sync_success_def read_clock_def)
    with Inl show ?thesis by simp
  next
    case (Inr u)
    then show ?thesis by simp
  qed
  have mem: "sync_states w2 b = Some (st\<lparr>last_sync_timestamp := Some ts,
                        last_sync_event_id := Some ?k,
                        total_events_synced := total_events_synced st + int (length sent),
                        last_sync_status := ''success'',
                        last_sync_error := None,
                        updated_at := now_iso io (clock ws)\<rparr>)"
    using update_sync_success_memory [of io b ts ?k "int (length sent)" ws b] upd goc
    by simp
  then have c3: "cursor_event_id w2 b = Some ?k"
    by (simp add: cursor_event_id_def)
  have "filter (\<lambda>e. event_id_or_0 e > ?k) evs = []"
    unfolding last_eq using sorted_last_max [OF asc] by (auto simp add: filter_empty_conv not_less)
  then have c4: "get_events_since_last_sync io b evs w2 = (Inr [], w2)"
    using mem by (simp add: selector_existing)
  from c2 c2' c3 c4 show ?thesis by (intro conjI)
qed

lemma record_failure_step:
  "cursor_event_id (snd (update_sync_failure io b m n w)) b' = cursor_event_id w b'
   \<and> cursor_total w b' \<le> cursor_total (snd (update_sync_failure io b m n w)) b'"
proof (cases "b' = b")
  case False
  then show ?thesis
    by (simp add: cursor_event_id_def cursor_total_def update_sync_failure_memory)
next
  case True
  show ?thesis
  proof (cases rule: get_or_create_cases [of w b io])
    case (existing st)
    then show ?thesis using True
      by (simp add: cursor_event_id_def cursor_total_def update_sync_failure_memory)
  next
    case (created w1)
    then show ?thesis using True
      by (simp add: cursor_event_id_def cursor_total_def update_sync_failure_memory
          new_sync_state_def)
  next
    case (failed e w1)
    then show ?thesis using True
      by (simp add: cursor_event_id_def cursor_total_def update_sync_failure_memory
          new_sync_state_def)
  qed
qed

lemma record_success_step:
  "(cursor_event_id (snd (update_sync_success io b ts i n w)) b = Some i
      \<and> cursor_total (snd (update_sync_success io b ts i n w)) b = cursor_total w b + n)
   \<or> (cursor_event_id w b = None
      \<and> cursor_event_id (snd (update_sync_success io b ts i n w)) b = None
      \<and> cursor_total (snd (update_sync_success io b ts i n w)) b = cursor_total w b)"
proof (cases rule: get_or_create_cases [of w b io])
  case (existing st)
  then show ?thesis
    by (simp add: cursor_event_id_def cursor_total_def update_sync_success_memory)
next
  case (created w1)
  then show ?thesis
    by (simp add: cursor_event_id_def cursor_total_def update_sync_success_memory
        new_sync_state_def)
next
  case (failed e w1)
  then show ?thesis
    by (simp add: cursor_event_id_def cursor_total_def update_sync_success_memory
        new_sync_state_def)
qed

lemma cursor_le_refl: "cursor_le x x"
  by (cases x) simp_all

lemma cursor_le_trans: "cursor_le x y \<Longrightarrow> cursor_le y z \<Longrightarrow> cursor_le x z"
  by (cases x; cases y; cases z) simp_all

lemma admissible_run:
  "admissible b cur ops \<Longrightarrow> cursor_le (cursor_event_id w b) cur \<Longrightarrow>
     cursor_le (cursor_event_id w b) (cursor_event_id (run_store_ops io ops w) b)
     \<and> cursor_total w b \<le> cursor_total (run_store_ops io ops w) b"
proof (induction ops arbitrary: w cur)
  case Nil
  then show ?case by (simp add: cursor_le_refl)
next
  case (Cons x ops)
  show ?case
  proof (cases x)
    case (Create b')
    with Cons.prems have ne: "b' \<noteq> b" and adm: "admissible b cur ops" by simp_all
    have same: "sync_states (apply_store_op io x w) b = sync_states w b"
      using ne Create by (simp add: create_memory)
    then have eq: "cursor_event_id (apply_store_op io x w) b = cursor_event_id w b"
      "cursor_total (apply_store_op io x w) b = cursor_total w b"
      by (simp_all add: cursor_event_id_def cursor_total_def)
    from Cons.IH [OF adm, of "apply_store_op io x w"] Cons.prems(2) eq
    show ?thesis by simp
  next
    case (RecordFailure b' m n)
    with Cons.prems have adm: "admissible b cur ops" by simp
    have eq: "cursor_event_id (apply_store_op io x w) b = cursor_event_id w b"
      and le: "cursor_total w b \<le> cursor_total (apply_store_op io x w) b"
      using record_failure_step [of io b' m n w b] RecordFailure by simp_all
    from Cons.IH [OF adm, of "apply_store_op io x w"] Cons.prems(2) eq le
    show ?thesis by simp
  next
    case (RecordSuccess b' ts i n)
    show ?thesis
    proof (cases "b' = b")
      case False
      with Cons.prems RecordSuccess have adm: "admissible b cur ops" by simp
      have same: "sync_states (apply_store_op io x w) b = sync_states w b"
        using False RecordSuccess by (simp add: update_sync_success_memory)
      then have eq: "cursor_event_id (apply_store_op io x w) b = cursor_event_id w b"
        "cursor_total (apply_store_op io x w) b = cursor_total w b"
        by (simp_all add: cursor_event_id_def cursor_total_def)
      from Cons.IH [OF adm, of "apply_store_op io x w"] Cons.prems(2) eq
      show ?thesis by simp
    next
      case True
      with Cons.prems RecordSuccess have n: "0 \<le> n" and ci: "cursor_le cur (Some i)"
        and adm: "admissible b (Some i) ops" by simp_all
      let ?w1 = "apply_store_op io x w"
      have step: "(cursor_event_id ?w1 b = Some i \<and> cursor_total ?w1 b = cursor_total w b + n)
          \<or> (cursor_event_id w b = None \<and> cursor_event_id ?w1 b = None
              \<and> cursor_total ?w1 b = cursor_total w b)"
        using record_success_step [of io b ts i n w] RecordSuccess True by simp
      have le1: "cursor_le (cursor_event_id ?w1 b) (Some i)"
        using step by (auto simp add: cursor_le_refl)
      have mono1: "cursor_le (cursor_event_id w b) (cursor_event_id ?w1 b)"
        using step cursor_le_trans [OF Cons.prems(2) ci] by auto
      have tot1: "cursor_total w b \<le> cursor_total ?w1 b"
        using step n by auto
      from Cons.IH [OF adm le1]
      have "cursor_le (cursor_event_id ?w1 b) (cursor_event_id (run_store_ops io ops ?w1) b)"
        and "cursor_total ?w1 b \<le> cursor_total (run_store_ops io ops ?w1) b" by simp_all
      with mono1 tot1 show ?thesis
        using cursor_le_trans by (fastforce simp add: RecordSuccess)
    qed
  qed
qed

text \<open>
  C3, as the code has it. \<^verbatim>\<open>update_sync_success\<close> checks nothing: on a bucket that has
  a state, or whose state it creates and saves without a failure, it stores the id it is
  given and adds the count it is given.
  \<^verbatim>\<open>update_sync_failure\<close> never changes \<^verbatim>\<open>last_sync_event_id\<close> and never lowers
  \<^verbatim>\<open>total_events_synced\<close>. So along every sequence of calls in which each
  \<^verbatim>\<open>update_sync_success\<close> on the bucket passes a count \<open>\<ge> 0\<close> and an id not below the
  one recorded before it (and the bucket is not created anew), neither
  \<^verbatim>\<open>last_sync_event_id\<close> nor \<^verbatim>\<open>total_events_synced\<close> of the bucket decreases.
\<close>

theorem admissible_calls_monotone:
  assumes "admissible b (cursor_event_id w b) ops"
  shows "cursor_le (cursor_event_id w b) (cursor_event_id (run_store_ops io ops w) b)
       \<and> cursor_total w b \<le> cursor_total (run_store_ops io ops w) b
       \<and> cursor_event_id (snd (update_sync_failure io b m n w)) b = cursor_event_id w b
       \<and> cursor_total w b \<le> cursor_total (snd (update_sync_failure io b m n w)) b
       \<and> (sync_states w b \<noteq> None \<or> no_fault io (saves w) \<longrightarrow>
            cursor_event_id (snd (update_sync_success io b ts i k w)) b = Some i
            \<and> cursor_total (snd (update_sync_success io b ts i k w)) b = cursor_total w b + k)"
proof -
  have "sync_states w b \<noteq> None \<or> no_fault io (saves w) \<longrightarrow>
            cursor_event_id (snd (update_sync_success io b ts i k w)) b = Some i
            \<and> cursor_total (snd (update_sync_success io b ts i k w)) b = cursor_total w b + k"
  proof (cases rule: get_or_create_cases [of w b io])
    case (existing st)
    then show ?thesis
      by (simp add: cursor_event_id_def cursor_total_def update_sync_success_memory)
  next
    case (created w1)
    then show ?thesis
      by (simp add: cursor_event_id_def cursor_total_def update_sync_success_memory
          new_sync_state_def)
  next
    case (failed e w1)
    have "no_fault io (saves w) \<Longrightarrow> False"
    proof -
      assume "no_fault io (saves w)"
      then have "fst (create_sync_state io b w) = Inr (new_sync_state b (now_iso io (clock w)))"
        by (rule create_no_fault)
      then show False
        using failed by (simp add: get_or_create_sync_state_def get_sync_state_def)
    qed
    then show ?thesis using failed by auto
  qed
  then show ?thesis
    using admissible_run [OF assms cursor_le_refl] record_failure_step [of io b m n w b]
    by simp
qed

theorem admissible_calls_monotone_witness:
  "admissible ''window'' (cursor_event_id (synced_world ''window'' 3) ''window'')
     [RecordFailure ''window'' ''Network timeout'' 0,
      RecordSuccess ''window'' ''2025-08-22T12:05:00Z'' 5 2]
   \<and> cursor_event_id (synced_world ''window'' 3) ''window'' = Some 3
   \<and> cursor_event_id
        (run_store_ops io_ok
          [RecordFailure ''window'' ''Network timeout'' 0,
           RecordSuccess ''window'' ''2025-08-22T12:05:00Z'' 5 2]
          (synced_world ''window'' 3)) ''window'' = Some 5
   \<and> cursor_total (synced_world ''window'' 3) ''window'' = 3
   \<and> cursor_total
        (run_store_ops io_ok
          [RecordFailure ''window'' ''Network timeout'' 0,
           RecordSuccess ''window'' ''2025-08-22T12:05:00Z'' 5 2]
          (synced_world ''window'' 3)) ''window'' = 5"
  using admissible_calls_monotone [of "''window''" "synced_world ''window'' 3"
      "[RecordFailure ''window'' ''Network timeout'' 0,
        RecordSuccess ''window'' ''2025-08-22T12:05:00Z'' 5 2]" io_ok "''Network timeout''" 0]
  by (simp add: model_defs)

text \<open>
  C3 as stated fails: on a bucket synced up to id 100, \<^verbatim>\<open>update_sync_success\<close> with
  id 3 returns normally and leaves \<^verbatim>\<open>last_sync_event_id = 3\<close>.
\<close>

theorem cursor_decrease_counterexample:
  "fst (update_sync_success io_ok ''window'' ''2025-08-22T12:05:00Z'' 3 1
          (synced_world ''window'' 100)) = Inr ()
   \<and> cursor_event_id (synced_world ''window'' 100) ''window'' = Some 100
   \<and> cursor_event_id
        (snd (update_sync_success io_ok ''window'' ''2025-08-22T12:05:00Z'' 3 1
               (synced_world ''window'' 100))) ''window'' = Some 3
   \<and> \<not> cursor_le (cursor_event_id (synced_world ''window'' 100) ''window'')
        (cursor_event_id
          (snd (update_sync_success io_ok ''window'' ''2025-08-22T12:05:00Z'' 3 1
                 (synced_world ''window'' 100))) ''window'')"
  by (simp add: model_defs)

text \<open>
  C4, as the code has it. \<^verbatim>\<open>update_sync_failure\<close> with \<^verbatim>\<open>events_synced = 0\<close> on a
  bucket with state \<open>c\<close> keeps every field of \<open>c\<close> except three: the status becomes
  \<^verbatim>\<open>'failed'\<close>, \<^verbatim>\<open>last_sync_error\<close> becomes the message and \<^verbatim>\<open>updated_at\<close> the
  time of the call. In particular \<^verbatim>\<open>last_sync_event_id\<close> and
  \<^verbatim>\<open>total_events_synced\<close> are unchanged, no other bucket's state changes, and the
  selector returns the same events as before the attempt.
\<close>

theorem failure_keeps_position:
  assumes "sync_states w b = Some c"
  shows "sync_states (snd (update_sync_failure io b msg 0 w)) b =
           Some (c\<lparr>last_sync_status := ''failed'',
                   last_sync_error := Some msg,
                   updated_at := now_iso io (clock w)\<rparr>)
       \<and> cursor_event_id (snd (update_sync_failure io b msg 0 w)) b = cursor_event_id w b
       \<and> cursor_total (snd (update_sync_failure io b msg 0 w)) b = cursor_total w b
       \<and> (\<forall>b'. b' \<noteq> b \<longrightarrow>
             sync_states (snd (update_sync_failure io b msg 0 w)) b' = sync_states w b')
       \<and> fst (get_events_since_last_sync io b evs (snd (update_sync_failure io b msg 0 w)))
           = fst (get_events_since_last_sync io b evs w)"
proof -
  let ?w' = "snd (update_sync_failure io b msg 0 w)"
  have goc: "get_or_create_sync_state io b w = (Inr c, w)"
    using assms by (rule get_or_create_existing)
  have mem: "sync_states ?w' b = Some (c\<lparr>last_sync_status := ''failed'',
                   last_sync_error := Some msg, updated_at := now_iso io (clock w)\<rparr>)"
    using update_sync_failure_memory [of io b msg 0 w b] goc by simp
  have others: "\<forall>b'. b' \<noteq> b \<longrightarrow> sync_states ?w' b' = sync_states w b'"
    using update_sync_failure_memory [of io b msg 0 w] by simp
  have sel: "fst (get_events_since_last_sync io b evs ?w')
           = fst (get_events_since_last_sync io b evs w)"
    using mem assms by (simp add: selector_existing)
  show ?thesis
    using mem others sel assms by (simp add: cursor_event_id_def cursor_total_def)
qed

theorem failure_keeps_position_witness:
  "sync_states (synced_world ''afk'' 2) ''afk'' = Some (example_cursor ''afk'' 2)
   \<and> sync_states (snd (update_sync_failure io_ok ''afk'' ''API error: 400 - Rejected'' 0
                        (synced_world ''afk'' 2))) ''afk''
       = Some ((example_cursor ''afk'' 2)
                \<lparr>last_sync_status := ''failed'',
                 last_sync_error := Some ''API error: 400 - Rejected'',
                 updated_at := ''2025-08-22T12:00:00+00:00''\<rparr>)
   \<and> fst (get_events_since_last_sync io_ok ''afk'' (map example_event [1, 2, 3])
            (snd (update_sync_failure io_ok ''afk'' ''API error: 400 - Rejected'' 0
                   (synced_world ''afk'' 2))))
       = Inr [example_event 3]"
  using failure_keeps_position [of "synced_world ''afk'' 2" "''afk''" "example_cursor ''afk'' 2"
      io_ok "''API error: 400 - Rejected''" "map example_event [1, 2, 3]"]
  by (simp add: model_defs)

text \<open>
  C4 as stated fails: after the recorded failure the state differs from the one before
  (its status is \<^verbatim>\<open>'failed'\<close>, no longer \<^verbatim>\<open>'success'\<close>).
\<close>

theorem failure_changes_cursor_counterexample:
  "sync_states (synced_world ''afk'' 2) ''afk'' = Some (example_cursor ''afk'' 2)
   \<and> sync_states (snd (update_sync_failure io_ok ''afk'' ''API error: 400 - Rejected'' 0
                        (synced_world ''afk'' 2))) ''afk''
       \<noteq> Some (example_cursor ''afk'' 2)
   \<and> cursor_status (snd (update_sync_failure io_ok ''afk'' ''API error: 400 - Rejected'' 0
                        (synced_world ''afk'' 2))) ''afk'' = Some ''failed''
   \<and> cursor_status (synced_world ''afk'' 2) ''afk'' = Some ''success''"
  by (simp add: model_defs)

lemma status_inv_new: "status_inv (new_sync_state b t)"
  by (simp add: status_inv_def new_sync_state_def)

lemma status_inv_step:
  assumes "\<forall>b c. sync_states w b = Some c \<longrightarrow> status_inv c"
  shows "\<forall>b c. sync_states (apply_store_op io x w) b = Some c \<longrightarrow> status_inv c"
proof (intro allI impI)
  fix b c
  assume c: "sync_states (apply_store_op io x w) b = Some c"
  show "status_inv c"
  proof (cases x)
    case (Create b')
    then show ?thesis using c assms
      by (auto simp add: create_memory status_inv_new split: if_splits)
  next
    case (RecordSuccess b' ts i n)
    show ?thesis
    proof (cases "b = b'")
      case False
      then show ?thesis using c assms RecordSuccess
        by (simp add: update_sync_success_memory)
    next
      case True
      show ?thesis
      proof (cases rule: get_or_create_cases [of w b' io])
        case (existing st)
        then have "status_inv st" using assms by blast
        then show ?thesis using c True RecordSuccess existing
          by (auto simp add: update_sync_success_memory status_inv_def)
      next
        case (created w1)
        then show ?thesis using c True RecordSuccess
          by (auto simp add: update_sync_success_memory status_inv_def new_sync_state_def)
      next
        case (failed e w1)
        then show ?thesis using c True RecordSuccess
          by (auto simp add: update_sync_success_memory status_inv_new)
      qed
    qed
  next
    case (RecordFailure b' m n)
    show ?thesis
    proof (cases "b = b'")
      case False
      then show ?thesis using c assms RecordFailure
        by (simp add: update_sync_failure_memory)
    next
      case True
      show ?thesis
      proof (cases rule: get_or_create_cases [of w b' io])
        case (existing st)
        then have "status_inv st" using assms by blast
        then show ?thesis using c True RecordFailure existing
          by (auto simp add: update_sync_failure_memory status_inv_def split: if_splits)
      next
        case (created w1)
        then show ?thesis using c True RecordFailure
          by (auto simp add: update_sync_failure_memory status_inv_def new_sync_state_def
              split: if_splits)
      next
        case (failed e w1)
        then show ?thesis using c True RecordFailure
          by (auto simp add: update_sync_failure_memory status_inv_new)
      qed
    qed
  qed
qed

lemma status_inv_run:
  "\<forall>b c. sync_states w b = Some c \<longrightarrow> status_inv c \<Longrightarrow>
   \<forall>b c. sync_states (run_store_ops io ops w) b = Some c \<longrightarrow> status_inv c"
proof (induction ops arbitrary: w)
  case Nil
  then show ?case by simp
next
  case (Cons x ops)
  from status_inv_step [OF Cons.prems]
  have "\<forall>b c. sync_states (apply_store_op io x w) b = Some c \<longrightarrow> status_inv c" .
  from Cons.IH [OF this] show ?case by simp
qed

text \<open>
  C5, as the code has it. For every state reachable from an empty manager by
  \<^verbatim>\<open>create_sync_state\<close>, \<^verbatim>\<open>update_sync_success\<close> and \<^verbatim>\<open>update_sync_failure\<close>:
  status \<^verbatim>\<open>'never'\<close> implies that \<^verbatim>\<open>last_sync_event_id\<close> is unset, and an unset
  \<^verbatim>\<open>last_sync_event_id\<close> implies that the status is \<^verbatim>\<open>'never'\<close>, \<^verbatim>\<open>'failed'\<close> or
  \<^verbatim>\<open>'partial'\<close>.
\<close>

theorem never_implies_unset:
  assumes "sync_states w = Map.empty"
    and "sync_states (run_store_ops io ops w) b = Some c"
  shows "(last_sync_status c = ''never'' \<longrightarrow> last_sync_event_id c = None)
       \<and> (last_sync_event_id c = None \<longrightarrow>
            last_sync_status c \<in> {''never'', ''failed'', ''partial''})"
proof -
  have "\<forall>b c. sync_states w b = Some c \<longrightarrow> status_inv c"
    using assms(1) by simp
  from status_inv_run [OF this] assms(2) have "status_inv c" by blast
  then show ?thesis by (auto simp add: status_inv_def)
qed

theorem never_implies_unset_witness:
  "sync_states fresh_world = Map.empty
   \<and> sync_states (run_store_ops io_ok [Create ''afk''] fresh_world) ''afk''
       = Some (new_sync_state ''afk'' ''2025-08-22T12:00:00+00:00'')
   \<and> last_sync_status (new_sync_state ''afk'' ''2025-08-22T12:00:00+00:00'') = ''never''
   \<and> last_sync_event_id (new_sync_state ''afk'' ''2025-08-22T12:00:00+00:00'') = None"
  using never_implies_unset [of fresh_world io_ok "[Create ''afk'']" "''afk''"
      "new_sync_state ''afk'' ''2025-08-22T12:00:00+00:00''"]
  by (simp add: model_defs)

text \<open>
  C5 as stated fails: a failure recorded on a bucket that was never synced leaves the
  status \<^verbatim>\<open>'failed'\<close> with \<^verbatim>\<open>last_sync_event_id\<close> unset.
\<close>

theorem failed_with_unset_id_counterexample:
  "cursor_status (run_store_ops io_ok [RecordFailure ''afk'' ''API error: 400 - Rejected'' 0]
                   fresh_world) ''afk'' = Some ''failed''
   \<and> cursor_event_id (run_store_ops io_ok [RecordFailure ''afk'' ''API error: 400 - Rejected'' 0]
                   fresh_world) ''afk'' = None
   \<and> \<not> (cursor_status (run_store_ops io_ok [RecordFailure ''afk'' ''API error: 400 - Rejected'' 0]
                   fresh_world) ''afk'' = Some ''never''
        \<longleftrightarrow> cursor_event_id (run_store_ops io_ok
                   [RecordFailure ''afk'' ''API error: 400 - Rejected'' 0]
                   fresh_world) ''afk'' = None)"
  by (simp add: model_defs)

text \<open>
  C8, as the code has it. On a bucket that has a state the selector changes nothing (no
  state, no clock reading, no file). It never changes the state of another bucket. On a
  bucket without a state it stores a fresh \<^verbatim>\<open>'never'\<close> state for the bucket and calls
  \<^verbatim>\<open>_save_sync_states\<close>, which writes the state file when nothing fails; a selection
  after that still returns all events, since the fresh state has no
  \<^verbatim>\<open>last_sync_event_id\<close>.
\<close>

theorem selector_creates_missing_cursor:
  "(\<forall>st. sync_states w b = Some st \<longrightarrow>
        snd (get_events_since_last_sync io b evs w) = w)
   \<and> (\<forall>b'. b' \<noteq> b \<longrightarrow>
        sync_states (snd (get_events_since_last_sync io b evs w)) b' = sync_states w b')
   \<and> (sync_states w b = None \<longrightarrow>
        sync_states (snd (get_events_since_last_sync io b evs w)) b
          = Some (new_sync_state b (now_iso io (clock w)))
        \<and> saves (snd (get_events_since_last_sync io b evs w)) = Suc (saves w)
        \<and> (no_fault io (saves w) \<longrightarrow>
             state_file (disk (snd (get_events_since_last_sync io b evs w)))
               = Some (Json ((sync_states w)(b \<mapsto> new_sync_state b (now_iso io (clock w))))))
        \<and> get_events_since_last_sync io b evs' (snd (get_events_since_last_sync io b evs w))
              = (Inr evs', snd (get_events_since_last_sync io b evs w)))"
proof -
  let ?w' = "snd (get_events_since_last_sync io b evs w)"
  have w': "?w' = snd (get_or_create_sync_state io b w)"
    by (cases "get_or_create_sync_state io b w")
      (auto simp add: get_events_since_last_sync_def split: sum.splits option.splits)
  have a: "\<forall>st. sync_states w b = Some st \<longrightarrow> ?w' = w"
    by (simp add: selector_existing)
  have b: "\<forall>b'. b' \<noteq> b \<longrightarrow> sync_states ?w' b' = sync_states w b'"
    unfolding w' by (simp add: get_or_create_memory split: option.splits)
  have c: "sync_states w b = None \<longrightarrow>
        sync_states ?w' b = Some (new_sync_state b (now_iso io (clock w)))
        \<and> saves ?w' = Suc (saves w)
        \<and> (no_fault io (saves w) \<longrightarrow>
             state_file (disk ?w')
               = Some (Json ((sync_states w)(b \<mapsto> new_sync_state b (now_iso io (clock w))))))
        \<and> get_events_since_last_sync io b evs' ?w' = (Inr evs', ?w')"
  proof
    assume none: "sync_states w b = None"
    define w2 where "w2 = w\<lparr>clock := Suc (clock w),
       sync_states := (sync_states w)(b \<mapsto> new_sync_state b (now_iso io (clock w)))\<rparr>"
    have snd_eq: "?w' = snd (save_sync_states io w2)"
      unfolding w' using none
      by (cases "save_sync_states io w2")
        (auto simp add: get_or_create_sync_state_def get_sync_state_def create_unfold
          w2_def split: sum.splits)
    have m: "sync_states ?w' b = Some (new_sync_state b (now_iso io (clock w)))"
      unfolding snd_eq by (simp add: save_keeps_memory w2_def)
    have s: "saves ?w' = Suc (saves w)"
      unfolding snd_eq by (simp add: save_keeps_memory w2_def)
    have d: "no_fault io (saves w) \<longrightarrow> state_file (disk ?w')
               = Some (Json ((sync_states w)(b \<mapsto> new_sync_state b (now_iso io (clock w)))))"
      unfolding snd_eq
      by (simp add: save_sync_states_def no_fault_def w2_def Let_def fs_dump_def fs_open_w_def
          fs_rename_to_backup_def split: option.splits)
    have again: "get_events_since_last_sync io b evs' ?w' = (Inr evs', ?w')"
      using m by (simp add: selector_existing new_sync_state_def)
    from m s d again show "sync_states ?w' b = Some (new_sync_state b (now_iso io (clock w)))
        \<and> saves ?w' = Suc (saves w)
        \<and> (no_fault io (saves w) \<longrightarrow>
             state_file (disk ?w')
               = Some (Json ((sync_states w)(b \<mapsto> new_sync_state b (now_iso io (clock w))))))
        \<and> get_events_since_last_sync io b evs' ?w' = (Inr evs', ?w')"
      by blast
  qed
  from a b c show ?thesis by blast
qed

theorem selector_creates_missing_cursor_witness:
  "sync_states fresh_world ''window'' = None
   \<and> no_fault io_ok (saves fresh_world)
   \<and> saves (snd (get_events_since_last_sync io_ok ''window'' [example_event 1] fresh_world)) = 1
   \<and> get_events_since_last_sync io_ok ''window'' [example_event 1, example_event 2]
        (snd (get_events_since_last_sync io_ok ''window'' [example_event 1] fresh_world))
       = (Inr [example_event 1, example_event 2],
          snd (get_events_since_last_sync io_ok ''window'' [example_event 1] fresh_world))
   \<and> snd (get_events_since_last_sync io_ok ''afk'' [example_event 1] (synced_world ''afk'' 0))
       = synced_world ''afk'' 0"
proof -
  have a: "sync_states fresh_world ''window'' = None" "saves fresh_world = 0"
    by (simp_all add: fresh_world_def)
  have nf: "no_fault io_ok (saves fresh_world)" by (simp add: no_fault_def io_ok_def)
  have s: "sync_states (synced_world ''afk'' 0) ''afk'' = Some (example_cursor ''afk'' 0)"
    by (simp add: synced_world_def)
  from selector_creates_missing_cursor [of fresh_world "''window''" io_ok "[example_event 1]"
      "[example_event 1, example_event 2]"] a nf
    selector_creates_missing_cursor [of "synced_world ''afk'' 0" "''afk''" io_ok
      "[example_event 1]" "[]"] s
  show ?thesis by simp
qed

text \<open>
  C8 as stated fails: a selection on a manager without any state and without a state
  file creates the bucket's state and writes the state file.
\<close>

theorem selector_writes_counterexample:
  "sync_states fresh_world ''window'' = None
   \<and> state_file (disk fresh_world) = None
   \<and> sync_states (snd (get_events_since_last_sync io_ok ''window'' [example_event 1]
                        fresh_world)) ''window''
       = Some (new_sync_state ''window'' ''2025-08-22T12:00:00+00:00'')
   \<and> state_file (disk (snd (get_events_since_last_sync io_ok ''window'' [example_event 1]
                        fresh_world)))
       = Some (Json [''window'' \<mapsto> new_sync_state ''window'' ''2025-08-22T12:00:00+00:00''])
   \<and> snd (get_events_since_last_sync io_ok ''window'' [example_event 1] fresh_world)
       \<noteq> fresh_world"
proof -
  let ?w' = "snd (get_events_since_last_sync io_ok ''window'' [example_event 1] fresh_world)"
  have a: "sync_states fresh_world ''window'' = None" "state_file (disk fresh_world) = None"
    by (simp_all add: fresh_world_def)
  have b: "sync_states ?w' ''window''
      = Some (new_sync_state ''window'' ''2025-08-22T12:00:00+00:00'')"
    by (simp add: model_defs)
  have c: "state_file (disk ?w')
      = Some (Json [''window'' \<mapsto> new_sync_state ''window'' ''2025-08-22T12:00:00+00:00''])"
    by (simp add: model_defs)
  from a(1) b have "?w' \<noteq> fresh_world" by auto
  with a b c show ?thesis by blast
qed

lemma save_no_fault_disk:
  "no_fault io (saves w) \<Longrightarrow>
     disk (snd (save_sync_states io w)) = interrupted_save 3 (sync_states w) (disk w)"
  by (simp add: save_sync_states_def no_fault_def interrupted_save_def Let_def)

text \<open>
  C9, as the code has it. A save that completes on an existing state file leaves the new
  dictionary in the state file and the previous content in the backup file. The save is
  not atomic: it renames the state file to the backup path, then opens the state file
  for writing, then dumps. Interrupted after the rename the state file is missing,
  interrupted after the open it is empty, and loading gives the empty dictionary in both
  cases; the previous content is in the backup file from the rename on.
\<close>

theorem save_keeps_one_backup:
  assumes "state_file (disk w) = Some (Json old)"
  shows "(no_fault io (saves w) \<longrightarrow>
            fst (save_sync_states io w) = Inr ()
            \<and> state_file (disk (snd (save_sync_states io w))) = Some (Json (sync_states w))
            \<and> backup_file (disk (snd (save_sync_states io w))) = Some (Json old))
       \<and> interrupted_save 0 new (disk w) = disk w
       \<and> (\<forall>k. 1 \<le> k \<longrightarrow> backup_file (interrupted_save k new (disk w)) = Some (Json old))
       \<and> state_file (interrupted_save 1 new (disk w)) = None
       \<and> state_file (interrupted_save 2 new (disk w)) = Some Blank
       \<and> load_sync_states (interrupted_save 1 new (disk w)) = Map.empty
       \<and> load_sync_states (interrupted_save 2 new (disk w)) = Map.empty
       \<and> (\<forall>k. 3 \<le> k \<longrightarrow> load_sync_states (interrupted_save k new (disk w)) = new)"
  using assms
  by (auto simp add: save_no_fault save_no_fault_disk interrupted_save_def load_sync_states_def
      fs_dump_def fs_open_w_def fs_rename_to_backup_def Let_def)

theorem save_keeps_one_backup_witness:
  "state_file (disk (synced_world ''window'' 3))
       = Some (Json [''window'' \<mapsto> example_cursor ''window'' 3])
   \<and> no_fault io_ok (saves (synced_world ''window'' 3))
   \<and> fst (save_sync_states io_ok (synced_world ''window'' 3)) = Inr ()
   \<and> backup_file (disk (snd (save_sync_states io_ok (synced_world ''window'' 3))))
       = Some (Json [''window'' \<mapsto> example_cursor ''window'' 3])
   \<and> backup_file (interrupted_save 1 Map.empty (disk (synced_world ''window'' 3)))
       = Some (Json [''window'' \<mapsto> example_cursor ''window'' 3])
   \<and> load_sync_states (interrupted_save 3 Map.empty (disk (synced_world ''window'' 3)))
       = Map.empty"
proof -
  have a: "state_file (disk (synced_world ''window'' 3))
       = Some (Json [''window'' \<mapsto> example_cursor ''window'' 3])"
    by (simp add: synced_world_def)
  have nf: "no_fault io_ok (saves (synced_world ''window'' 3))"
    by (simp add: no_fault_def io_ok_def)
  from save_keeps_one_backup [OF a, of io_ok Map.empty] nf a
  show ?thesis by simp
qed

text \<open>
  C9 as stated fails: interrupted after the rename, a save leaves a disk from which
  neither the old nor the new dictionary is loaded.
\<close>

theorem interrupted_save_counterexample:
  "state_file (disk (synced_world ''window'' 3)) = Some (Json [''window'' \<mapsto> example_cursor ''window'' 3])
   \<and> load_sync_states (disk (synced_world ''window'' 3)) ''window''
       = Some (example_cursor ''window'' 3)
   \<and> load_sync_states
        (interrupted_save 1 [''window'' \<mapsto> example_cursor ''window'' 5]
          (disk (synced_world ''window'' 3))) ''window'' = None
   \<and> load_sync_states
        (interrupted_save 1 [''window'' \<mapsto> example_cursor ''window'' 5]
          (disk (synced_world ''window'' 3)))
       \<noteq> load_sync_states (disk (synced_world ''window'' 3))
   \<and> load_sync_states
        (interrupted_save 1 [''window'' \<mapsto> example_cursor ''window'' 5]
          (disk (synced_world ''window'' 3)))
       \<noteq> [''window'' \<mapsto> example_cursor ''window'' 5]"
proof -
  let ?d = "disk (synced_world ''window'' 3)"
  let ?new = "[''window'' \<mapsto> example_cursor ''window'' 5]"
  have a: "state_file ?d = Some (Json [''window'' \<mapsto> example_cursor ''window'' 3])"
    by (simp add: synced_world_def)
  have b: "load_sync_states ?d ''window'' = Some (example_cursor ''window'' 3)"
    by (simp add: synced_world_def load_sync_states_def)
  have c: "load_sync_states (interrupted_save 1 ?new ?d) ''window'' = None"
    by (simp add: synced_world_def load_sync_states_def interrupted_save_def
        fs_rename_to_backup_def)
  from b c have d: "load_sync_states (interrupted_save 1 ?new ?d) \<noteq> load_sync_states ?d"
    by (metis option.distinct(1))
  have "?new ''window'' \<noteq> None" by simp
  with c have e: "load_sync_states (interrupted_save 1 ?new ?d) \<noteq> ?new"
    by metis
  from a b c d e show ?thesis by blast
qed

section \<open>Properties of a pass\<close>

lemma ensure_authenticated_no_token:
  assumes "\<not> oauth_is_authenticated co \<or> oauth_load_tokens co = None
           \<or> (\<exists>t. oauth_load_tokens co = Some t \<and> t ''access_token'' = None)"
  shows "ensure_authenticated co sm = (False, sm)"
  using assms by (auto simp add: ensure_authenticated_def split: option.splits)

text \<open>
  C6. Whenever no valid bearer token is available (the OAuth manager is not authenticated,
  or no stored token with an \<^verbatim>\<open>access_token\<close> can be loaded), \<^verbatim>\<open>sync_all_buckets\<close>
  returns \<^verbatim>\<open>success = False\<close>, \<^verbatim>\<open>errors = ["Authentication required"]\<close>, zero events
  and zero buckets. The states in memory, the disk and the number of saves are as before,
  and the outcome does not depend on the buckets, the events or the backend.
\<close>

theorem unauthenticated_pass_aborts:
  assumes "\<not> oauth_is_authenticated co \<or> oauth_load_tokens co = None
           \<or> (\<exists>t. oauth_load_tokens co = Some t \<and> t ''access_token'' = None)"
  shows "sync_all_buckets io co sm =
           (\<lparr>success = False, events_synced = 0, buckets_synced = 0,
             errors = [''Authentication required''],
             timestamp = now_iso io (clock (sync_state_manager sm))\<rparr>,
            sm\<lparr>sync_state_manager :=
                 (sync_state_manager sm)\<lparr>clock := Suc (clock (sync_state_manager sm))\<rparr>\<rparr>)
       \<and> sync_states (sync_state_manager (snd (sync_all_buckets io co sm)))
           = sync_states (sync_state_manager sm)
       \<and> disk (sync_state_manager (snd (sync_all_buckets io co sm)))
           = disk (sync_state_manager sm)
       \<and> saves (sync_state_manager (snd (sync_all_buckets io co sm)))
           = saves (sync_state_manager sm)
       \<and> sync_all_buckets io
             (co\<lparr>db_get_buckets := g, db_get_events := ev, http_get_session := h,
                 http_post := p\<rparr>) sm
           = sync_all_buckets io co sm"
proof -
  have a: "ensure_authenticated co sm = (False, sm)"
    using assms by (rule ensure_authenticated_no_token)
  have b: "ensure_authenticated
             (co\<lparr>db_get_buckets := g, db_get_events := ev, http_get_session := h,
                 http_post := p\<rparr>) sm
      = (False, sm)"
    using assms by (intro ensure_authenticated_no_token) simp
  show ?thesis
    by (simp add: sync_all_buckets_def a b failed_pass_def read_clock_def)
qed

theorem unauthenticated_pass_aborts_witness:
  "oauth_is_authenticated (example_collab\<lparr>oauth_is_authenticated := False\<rparr>) = False
   \<and> fst (sync_all_buckets io_ok (example_collab\<lparr>oauth_is_authenticated := False\<rparr>)
            fresh_manager)
       = \<lparr>success = False, events_synced = 0, buckets_synced = 0,
          errors = [''Authentication required''],
          timestamp = ''2025-08-22T12:00:00+00:00''\<rparr>
   \<and> sync_states (sync_state_manager
        (snd (sync_all_buckets io_ok (example_collab\<lparr>oauth_is_authenticated := False\<rparr>)
               fresh_manager))) = Map.empty
   \<and> saves (sync_state_manager
        (snd (sync_all_buckets io_ok (example_collab\<lparr>oauth_is_authenticated := False\<rparr>)
               fresh_manager))) = 0"
  using unauthenticated_pass_aborts [of "example_collab\<lparr>oauth_is_authenticated := False\<rparr>"
      io_ok fresh_manager]
  by (simp add: example_collab_def fresh_manager_def fresh_world_def io_ok_def)



lemma send_events_keeps_store:
  "sync_states (snd (send_events io co c evs w)) = sync_states w"
  "disk (snd (send_events io co c evs w)) = disk w"
  "saves (snd (send_events io co c evs w)) = saves w"
  by (simp_all add: send_events_def read_clock_def split: option.splits sum.splits prod.splits)






lemma prepare_events_keys:
  "prepare_events b es = Inr ss \<Longrightarrow> e \<in> set es \<Longrightarrow>
     (\<exists>i. ev_id e = Some i) \<and> (\<exists>t. ev_timestamp e = Some t)"
proof (induction es arbitrary: ss)
  case Nil
  then show ?case by simp
next
  case (Cons x es)
  then show ?case
    by (auto simp add: prepare_event_def split: sum.splits option.splits)
qed

lemma sync_bucket_send_success:
  assumes "db_get_events co b = Inr all_events"
    and "get_events_since_last_sync io b all_events (sync_state_manager sm) = (Inr unsynced, w1)"
    and "unsynced \<noteq> []"
    and "prepare_events b unsynced = Inr to_send"
    and "api_client sm = Some c"
    and "send_events io co c to_send w1 = ((True, message), ws)"
    and "ev_timestamp (last unsynced) = Some ts"
    and "ev_id (last unsynced) = Some i"
  shows "sync_bucket io co b sm =
     (case update_sync_success io b ts i (int (length unsynced)) ws of
        (Inl e, w2) \<Rightarrow> (Inl e, sm\<lparr>sync_state_manager := w2\<rparr>)
      | (Inr u, w2) \<Rightarrow> (Inr (int (length unsynced)), sm\<lparr>sync_state_manager := w2\<rparr>))"
  using assms by (simp add: sync_bucket_def)

lemma sync_bucket_nothing_unsynced:
  assumes "db_get_events co b = Inr all_events"
    and "get_events_since_last_sync io b all_events (sync_state_manager sm)
           = (Inr [], sync_state_manager sm)"
  shows "sync_bucket io co b sm = (Inr 0, sm)"
  using assms by (simp add: sync_bucket_def)

text \<open>
  C2. For every bucket and every event list sorted ascending by id (each event with an
  id): when \<^verbatim>\<open>_sync_bucket\<close> selects a non-empty batch and the backend accepts it, the
  pass calls \<^verbatim>\<open>update_sync_success\<close> with the id of the batch's last event and returns
  the size of the batch (it raises only when the save of that update fails, and the state
  in memory is advanced in either case). Afterwards the bucket's
  \<^verbatim>\<open>last_sync_event_id\<close> is that id, the selector run again on the same event list
  returns the empty list and changes nothing, and a second \<^verbatim>\<open>_sync_bucket\<close> syncs
  zero events.
\<close>

theorem pass_success_then_nothing_unsynced:
  assumes ids: "\<forall>e\<in>set evs. ev_id e \<noteq> None"
    and asc: "sorted (map event_id_or_0 evs)"
    and ev: "db_get_events co b = Inr evs"
    and sel: "get_events_since_last_sync io b evs (sync_state_manager sm) = (Inr sent, w1)"
    and ne: "sent \<noteq> []"
    and prep: "prepare_events b sent = Inr to_send"
    and cl: "api_client sm = Some c"
    and send: "send_events io co c to_send w1 = ((True, message), ws)"
  shows "\<exists>r sm1.
           sync_bucket io co b sm = (r, sm1)
         \<and> (no_fault io (saves ws) \<longrightarrow> r = Inr (int (length sent)))
         \<and> (r = Inr (int (length sent)) \<or> (\<exists>m. r = Inl (RuntimeError m)))
         \<and> ev_id (last sent) = Some (event_id_or_0 (last sent))
         \<and> cursor_event_id (sync_state_manager sm1) b = Some (event_id_or_0 (last sent))
         \<and> get_events_since_last_sync io b evs (sync_state_manager sm1)
             = (Inr [], sync_state_manager sm1)
         \<and> sync_bucket io co b sm1 = (Inr 0, sm1)"
proof -
  let ?k = "event_id_or_0 (last sent)"
  let ?n = "int (length sent)"
  have "last sent \<in> set sent" using ne by simp
  from prepare_events_keys [OF prep this]
  obtain ts where ts: "ev_timestamp (last sent) = Some ts"
    and k: "ev_id (last sent) = Some ?k"
    by (auto simp add: event_id_or_0_def)
  obtain u w2 where upd: "update_sync_success io b ts ?k ?n ws = (u, w2)"
    by (cases "update_sync_success io b ts ?k ?n ws")
  have keep: "sync_states ws = sync_states w1"
    using send_events_keeps_store(1) [of io co c to_send w1] send by simp
  from record_last_then_nothing_unsynced [OF asc sel ne keep upd]
  have u1: "no_fault io (saves ws) \<longrightarrow> u = Inr ()"
    and u2: "u = Inr () \<or> (\<exists>m. u = Inl (RuntimeError m))"
    and cur: "cursor_event_id w2 b = Some ?k"
    and again: "get_events_since_last_sync io b evs w2 = (Inr [], w2)"
    by simp_all
  define r where "r = (case u of Inl e \<Rightarrow> Inl e | Inr x \<Rightarrow> Inr ?n)"
  define sm1 where "sm1 = sm\<lparr>sync_state_manager := w2\<rparr>"
  have sb: "sync_bucket io co b sm = (r, sm1)"
    unfolding sync_bucket_send_success [OF ev sel ne prep cl send ts k] upd r_def sm1_def
    by (cases u) simp_all
  have w2: "sync_state_manager sm1 = w2" by (simp add: sm1_def)
  have r1: "no_fault io (saves ws) \<longrightarrow> r = Inr ?n"
    using u1 by (auto simp add: r_def)
  have r2: "r = Inr ?n \<or> (\<exists>m. r = Inl (RuntimeError m))"
    using u2 by (auto simp add: r_def)
  have rerun: "sync_bucket io co b sm1 = (Inr 0, sm1)"
    using ev again w2 by (intro sync_bucket_nothing_unsynced) simp_all
  show ?thesis
  proof (rule exI [of _ r], rule exI [of _ sm1], intro conjI)
    show "sync_bucket io co b sm = (r, sm1)" by (fact sb)
    show "no_fault io (saves ws) \<longrightarrow> r = Inr ?n" by (fact r1)
    show "r = Inr ?n \<or> (\<exists>m. r = Inl (RuntimeError m))" by (fact r2)
    show "ev_id (last sent) = Some ?k" by (fact k)
    show "cursor_event_id (sync_state_manager sm1) b = Some ?k" using cur w2 by simp
    show "get_events_since_last_sync io b evs (sync_state_manager sm1)
             = (Inr [], sync_state_manager sm1)" using again w2 by simp
    show "sync_bucket io co b sm1 = (Inr 0, sm1)" by (fact rerun)
  qed
qed

lemmas pass_defs =
  sync_all_buckets_def sync_bucket_def send_events_def ensure_authenticated_def
  prepare_event_def update_sync_stats_def failed_pass_def rstrip_slash_def
  example_collab_def fresh_manager_def authed_manager_def


lemma authed: "authed_manager =
  fresh_manager\<lparr>api_client := Some \<lparr>base_url = ''https://api.example.com'',
                                      access_token = ''secret-token''\<rparr>\<rparr>"
  by (simp add: authed_manager_def ensure_authenticated_def example_collab_def fresh_manager_def
      rstrip_slash_def)



lemma window_succeeds:
  "fst (sync_bucket io_ok example_collab ''window'' authed_manager) = Inr 2"
  unfolding authed
  by (simp add: pass_defs model_defs)

theorem pass_success_then_nothing_unsynced_witness:
  "list_all (\<lambda>e. ev_id e \<noteq> None) (map example_event [1, 2])
   \<and> sorted (map event_id_or_0 (map example_event [1, 2]))
   \<and> db_get_events example_collab ''window'' = Inr (map example_event [1, 2])
   \<and> api_client authed_manager
       = Some \<lparr>base_url = ''https://api.example.com'', access_token = ''secret-token''\<rparr>
   \<and> fst (sync_bucket io_ok example_collab ''window'' authed_manager) = Inr 2
   \<and> cursor_event_id
        (sync_state_manager (snd (sync_bucket io_ok example_collab ''window'' authed_manager)))
        ''window'' = Some 2
   \<and> fst (get_events_since_last_sync io_ok ''window'' (map example_event [1, 2])
        (sync_state_manager (snd (sync_bucket io_ok example_collab ''window'' authed_manager))))
       = Inr []
   \<and> fst (sync_bucket io_ok example_collab ''window''
        (snd (sync_bucket io_ok example_collab ''window'' authed_manager))) = Inr 0"
proof -
  let ?evs = "map example_event [1, 2]"
  let ?c = "\<lparr>base_url = ''https://api.example.com'', access_token = ''secret-token''\<rparr>"
  let ?sel = "get_events_since_last_sync io_ok ''window'' ?evs (sync_state_manager authed_manager)"
  let ?sb = "sync_bucket io_ok example_collab ''window'' authed_manager"
  have h1: "\<forall>e\<in>set ?evs. ev_id e \<noteq> None" by (simp add: example_event_def)
  have h2: "sorted (map event_id_or_0 ?evs)" by (simp add: example_event_def event_id_or_0_def)
  have h3: "db_get_events example_collab ''window'' = Inr ?evs"
    by (simp add: example_collab_def)
  have "fst ?sel = Inr ?evs"
    unfolding authed by (simp add: fresh_manager_def model_defs)
  then have h4: "?sel = (Inr ?evs, snd ?sel)" by (metis prod.collapse)
  have h5: "?evs \<noteq> []" by simp
  obtain to_send where h6: "prepare_events ''window'' ?evs = Inr to_send"
    by (simp add: prepare_event_def example_event_def)
  have h7: "api_client authed_manager = Some ?c" by (simp add: authed)
  let ?snd = "send_events io_ok example_collab ?c to_send (snd ?sel)"
  have "fst ?snd = (True, ''Events sent successfully'')"
    using h6 by (auto simp add: send_events_def example_collab_def prepare_event_def
        example_event_def read_clock_def split: prod.splits)
  then have h8: "?snd = ((True, ''Events sent successfully''), snd ?snd)"
    by (metis prod.collapse)
  have k: "event_id_or_0 (last ?evs) = 2" by (simp add: example_event_def event_id_or_0_def)
  from pass_success_then_nothing_unsynced [OF h1 h2 h3 h4 h5 h6 h7 h8]
  obtain r sm1 where sb: "?sb = (r, sm1)"
    and cur: "cursor_event_id (sync_state_manager sm1) ''window''
        = Some (event_id_or_0 (last ?evs))"
    and again: "get_events_since_last_sync io_ok ''window'' ?evs (sync_state_manager sm1)
        = (Inr [], sync_state_manager sm1)"
    and rerun: "sync_bucket io_ok example_collab ''window'' sm1 = (Inr 0, sm1)"
    by blast
  from sb have sm1: "sm1 = snd ?sb" by simp
  have c6: "cursor_event_id (sync_state_manager (snd ?sb)) ''window'' = Some 2"
    using cur sm1 k by simp
  have c7: "fst (get_events_since_last_sync io_ok ''window'' ?evs
      (sync_state_manager (snd ?sb))) = Inr []"
    using again sm1 by simp
  have c8: "fst (sync_bucket io_ok example_collab ''window'' (snd ?sb)) = Inr 0"
    using rerun sm1 by simp
  have c1: "list_all (\<lambda>e. ev_id e \<noteq> None) ?evs" using h1 by (simp add: list_all_iff)
  from c1 h2 h3 h7 window_succeeds c6 c7 c8 show ?thesis by (intro conjI)
qed


end
